theory Spec2Isabelle
  imports Complex_Main
begin

section \<open>Data model (models.py)\<close>

text \<open>
  The three tables of \<^verbatim>\<open>models.py\<close>. A row is a record; a table is the list of its rows in
  the order \<^verbatim>\<open>db.query(...).all()\<close> returns them. Primary keys and the \<^verbatim>\<open>product_id\<close>,
  \<^verbatim>\<open>user_id\<close> path parameters are Python integers, hence \<open>int\<close>. The price is a
  Python float that the program only stores and hands back, never computes with: a finite
  value, an infinity or a NaN.
\<close>

datatype pyfloat = Finite real | PosInf | NegInf | NaN

record user =
  u_id :: int
  username :: string
  email :: string
  hashed_password :: string
  whatsapp :: string

record product =
  p_id :: int
  name :: string
  description :: string
  price :: pyfloat
  stock :: int
  image :: string
  owner_id :: int

record rating =
  r_id :: int
  user_id :: int
  product_id :: int

text \<open>An uploaded file (\<^verbatim>\<open>UploadFile\<close>): the client-side file name and the bytes.\<close>

record upload =
  filename :: string
  content :: "nat list"

text \<open>
  The state the handlers work on: the three tables, the process-wide dictionary
  \<^verbatim>\<open>sessions\<close> (token to user id), and the directory \<^verbatim>\<open>static/images\<close> as a map from path
  to file content.
\<close>

record state =
  users :: "user list"
  products :: "product list"
  ratings :: "rating list"
  sessions :: "string \<rightharpoonup> int"
  files :: "string \<rightharpoonup> nat list"

definition init_state :: state where
  "init_state = \<lparr>users = [], products = [], ratings = [], sessions = Map.empty, files = Map.empty\<rparr>"

text \<open>
  What a request does not determine. The value drawn by \<^verbatim>\<open>uuid.uuid4()\<close>. The password
  context: \<^verbatim>\<open>pwd_context.hash\<close> with its salt drawn (\<open>None\<close> when it raises) and
  \<^verbatim>\<open>pwd_context.verify\<close>. The operating system: whether it lets a file of a given path be
  created (length of the name, permissions, space). The database engine, which
  \<^verbatim>\<open>database.py\<close> fixes and which is not part of the sources read here: the range of an
  \<^verbatim>\<open>Integer\<close> column (no engine stores every Python integer) and the floats a
  \<^verbatim>\<open>Float\<close> column takes.
\<close>

record env =
  uuid4 :: nat
  pwd_hash :: "string \<Rightarrow> string option"
  pwd_verify :: "string \<Rightarrow> string \<Rightarrow> bool"
  open_ok :: "string \<Rightarrow> bool"
  integer_min :: int
  integer_max :: int
  float_ok :: "pyfloat \<Rightarrow> bool"

datatype cookie = NoCookie | SetCookie string | DeleteCookie

text \<open>The target of a redirect: a fixed path, or \<^verbatim>\<open>/product/{product_id}\<close>.\<close>

datatype location = Path string | ProductPath int

text \<open>
  Responses. A raised \<^verbatim>\<open>HTTPException\<close> is a response value with its status code and detail.
  The remaining constructors are the exceptions that no handler catches:
  \<open>IntegrityError\<close> (a constraint of the schema is violated), \<open>DatabaseError\<close> (the
  engine refuses a value; the exact class depends on the driver), \<open>ValueError\<close>,
  \<open>FileNotFoundError\<close> and \<open>OSError\<close>.
\<close>

datatype response =
    TemplateResponse string "string option"
  | IndexPage "(product \<times> nat) list" "user option"
  | ProductDetailPage product nat bool "user option"
  | EditProductPage product user
  | UserDetailPage user "user option"
  | RedirectResponse location cookie
  | HTTPException nat string
  | IntegrityError
  | DatabaseError
  | ValueError
  | FileNotFoundError
  | OSError

section \<open>Library functions the handlers call\<close>

text \<open>\<^verbatim>\<open>Query.first()\<close>: the first row of the result, or \<^verbatim>\<open>None\<close>.\<close>

fun first :: "'a list \<Rightarrow> 'a option" where
  "first [] = None"
| "first (x # xs) = Some x"

text \<open>
  The key the database gives a new row: one more than the largest key of the table
  (1 for an empty table).
\<close>

definition next_id :: "int list \<Rightarrow> int" where
  "next_id ids = fold max ids 0 + 1"

text \<open>
  \<^verbatim>\<open>str(uuid.uuid4())\<close>: the 128-bit value as 32 lower-case hexadecimal digits in groups of
  8, 4, 4, 4 and 12 joined by hyphens.
\<close>

definition hex_digit :: "nat \<Rightarrow> char" where
  "hex_digit d = ''0123456789abcdef'' ! (d mod 16)"

fun hex :: "nat \<Rightarrow> nat \<Rightarrow> string" where
  "hex 0 n = []"
| "hex (Suc w) n = hex w (n div 16) @ [hex_digit n]"

definition uuid_str :: "nat \<Rightarrow> string" where
  "uuid_str n =
     hex 8 (n div 2 ^ 96) @ ''-'' @ hex 4 (n div 2 ^ 80) @ ''-'' @ hex 4 (n div 2 ^ 64) @ ''-''
       @ hex 4 (n div 2 ^ 48) @ ''-'' @ hex 12 n"

text \<open>\<^verbatim>\<open>os.path.join("static", "images", name)\<close> for a relative \<open>name\<close>.\<close>

definition image_path :: "string \<Rightarrow> string" where
  "image_path nm = ''static/images/'' @ nm"

text \<open>
  \<^verbatim>\<open>open(image_path, "wb")\<close> for the file name \<open>nm\<close> under \<^verbatim>\<open>static/images\<close>; \<open>None\<close>
  when the file is opened, otherwise the exception. A NUL character in the path is
  refused by Python with \<^verbatim>\<open>ValueError\<close>. A name with a slash points into a subdirectory
  of \<^verbatim>\<open>static/images\<close>; the program never creates one, so the open fails with
  \<^verbatim>\<open>FileNotFoundError\<close>. Any other refusal is the operating system's.
\<close>

definition open_wb :: "env \<Rightarrow> string \<Rightarrow> response option" where
  "open_wb e nm =
     (if CHR 0x00 \<in> set nm then Some ValueError
      else if CHR ''/'' \<in> set nm then Some FileNotFoundError
      else if \<not> open_ok e (image_path nm) then Some OSError
      else None)"

text \<open>
  \<^verbatim>\<open>pwd_context.hash(password)\<close> with the bcrypt scheme: a password with a NUL character
  is refused (\<^verbatim>\<open>ValueError\<close>); \<open>None\<close> stands for the raised exception.
\<close>

definition hash_password :: "env \<Rightarrow> string \<Rightarrow> string option" where
  "hash_password e password = (if CHR 0x00 \<in> set password then None else pwd_hash e password)"

text \<open>
  Whether the engine stores the price and the stock of a product row: the stock within
  the range of the \<^verbatim>\<open>Integer\<close> column, the price a float the \<^verbatim>\<open>Float\<close> column takes.
\<close>

definition column_values_ok :: "env \<Rightarrow> pyfloat \<Rightarrow> int \<Rightarrow> bool" where
  "column_values_ok e pr st = (integer_min e \<le> st \<and> st \<le> integer_max e \<and> float_ok e pr)"

text \<open>
  \<^verbatim>\<open>list.sort(key=..., reverse=...)\<close>: a stable sort; with \<^verbatim>\<open>reverse=True\<close> the list is
  reversed, sorted stably in ascending order, and reversed again.
\<close>

definition list_sort :: "('a \<Rightarrow> nat) \<Rightarrow> bool \<Rightarrow> 'a list \<Rightarrow> 'a list" where
  "list_sort key reverse xs = (if reverse then rev (sort_key key (rev xs)) else sort_key key xs)"

text \<open>
  \<^verbatim>\<open>db.delete(product); db.commit()\<close>. The relationship \<^verbatim>\<open>Product.ratings\<close> is declared in
  \<^verbatim>\<open>models.py\<close> with no delete cascade, so the session detaches the product's ratings by
  setting their \<^verbatim>\<open>product_id\<close> to NULL before it deletes the product row. The column is
  declared \<^verbatim>\<open>nullable=False\<close>: when the product has a rating the flush violates the
  constraint, \<^verbatim>\<open>IntegrityError\<close> is raised and the transaction is not committed. Without
  ratings the row with the product's primary key is deleted.
\<close>

definition db_delete_product :: "product \<Rightarrow> state \<Rightarrow> unit option \<times> state" where
  "db_delete_product p s =
     (if filter (\<lambda>r. product_id r = p_id p) (ratings s) \<noteq> [] then (None, s)
      else (Some (), s\<lparr>products := filter (\<lambda>q. p_id q \<noteq> p_id p) (products s)\<rparr>))"

section \<open>The handlers (main.py)\<close>

definition get_current_user :: "state \<Rightarrow> string option \<Rightarrow> user option" where
  "get_current_user s session_token =
     (case session_token of
        None \<Rightarrow> None
      | Some t \<Rightarrow>
          if t \<noteq> [] \<and> sessions s t \<noteq> None
          then first (filter (\<lambda>u. u_id u = the (sessions s t)) (users s))
          else None)"

text \<open>
  \<^verbatim>\<open>register_user\<close> hashes the password after the query for an existing user and before
  it adds the new one; when the hash raises, nothing has been written.
\<close>

definition register_user ::
  "env \<Rightarrow> string \<Rightarrow> string \<Rightarrow> string \<Rightarrow> string \<Rightarrow> state \<Rightarrow> response \<times> state" where
  "register_user e uname mail password wa s =
     (case first (filter (\<lambda>u. username u = uname \<or> email u = mail) (users s)) of
        Some existing_user \<Rightarrow>
          (TemplateResponse ''register.html'' (Some ''El usuario o el correo ya existen''), s)
      | None \<Rightarrow>
          (case hash_password e password of
             None \<Rightarrow> (ValueError, s)
           | Some hashed \<Rightarrow>
               let u = \<lparr>u_id = next_id (map u_id (users s)), username = uname, email = mail,
                        hashed_password = hashed, whatsapp = wa\<rparr>;
                   session_token = uuid_str (uuid4 e)
               in (RedirectResponse (Path ''/'') (SetCookie session_token),
                   s\<lparr>users := users s @ [u],
                     sessions := (sessions s)(session_token \<mapsto> u_id u)\<rparr>)))"

text \<open>
  \<^verbatim>\<open>login_user\<close>: \<^verbatim>\<open>pwd_context.verify\<close> is reached only when a user has the name, and it
  refuses a password with a NUL character as \<^verbatim>\<open>pwd_context.hash\<close> does.
\<close>

definition login_user :: "env \<Rightarrow> string \<Rightarrow> string \<Rightarrow> state \<Rightarrow> response \<times> state" where
  "login_user e uname password s =
     (case first (filter (\<lambda>u. username u = uname) (users s)) of
        None \<Rightarrow> (TemplateResponse ''login.html'' (Some ''Credenciales incorrectas''), s)
      | Some u \<Rightarrow>
          if CHR 0x00 \<in> set password then (ValueError, s)
          else if \<not> pwd_verify e password (hashed_password u)
          then (TemplateResponse ''login.html'' (Some ''Credenciales incorrectas''), s)
          else let session_token = uuid_str (uuid4 e)
               in (RedirectResponse (Path ''/'') (SetCookie session_token),
                   s\<lparr>sessions := (sessions s)(session_token \<mapsto> u_id u)\<rparr>))"

definition logout :: "string option \<Rightarrow> state \<Rightarrow> response \<times> state" where
  "logout session_token s =
     (RedirectResponse (Path ''/'') DeleteCookie,
      case session_token of
        None \<Rightarrow> s
      | Some t \<Rightarrow> if t \<noteq> [] \<and> sessions s t \<noteq> None then s\<lparr>sessions := (sessions s)(t := None)\<rparr> else s)"

text \<open>\<^verbatim>\<open>len(product.ratings)\<close>: the number of rating rows that reference the product.\<close>

definition rating_count :: "state \<Rightarrow> int \<Rightarrow> nat" where
  "rating_count s pid = length (filter (\<lambda>r. product_id r = pid) (ratings s))"

definition products_with_ratings :: "state \<Rightarrow> (product \<times> nat) list" where
  "products_with_ratings s =
     list_sort snd True (map (\<lambda>p. (p, rating_count s (p_id p))) (products s))"

definition read_products :: "user option \<Rightarrow> state \<Rightarrow> response \<times> state" where
  "read_products current_user s = (IndexPage (products_with_ratings s) current_user, s)"

definition add_product_form :: "user option \<Rightarrow> state \<Rightarrow> response \<times> state" where
  "add_product_form current_user s =
     (case current_user of
        None \<Rightarrow> (RedirectResponse (Path ''/login'') NoCookie, s)
      | Some cu \<Rightarrow> (TemplateResponse ''add_product.html'' None, s))"

definition add_product ::
  "env \<Rightarrow> string \<Rightarrow> string \<Rightarrow> pyfloat \<Rightarrow> int \<Rightarrow> upload \<Rightarrow> user option \<Rightarrow> state
     \<Rightarrow> response \<times> state" where
  "add_product e nm descr pr st img current_user s =
     (case current_user of
        None \<Rightarrow> (RedirectResponse (Path ''/login'') NoCookie, s)
      | Some cu \<Rightarrow>
          if filename img = []
          then (TemplateResponse ''add_product.html'' (Some ''No se ha cargado ninguna imagen''), s)
          else
            let image_filename = uuid_str (uuid4 e) @ ''_'' @ filename img
            in (case open_wb e image_filename of
                  Some exn \<Rightarrow> (exn, s)
                | None \<Rightarrow>
                    let s1 = s\<lparr>files := (files s)(image_path image_filename \<mapsto> content img)\<rparr>;
                        p = \<lparr>p_id = next_id (map p_id (products s)), name = nm,
                             description = descr, price = pr, stock = st, image = image_filename,
                             owner_id = u_id cu\<rparr>
                    in if column_values_ok e pr st
                       then (RedirectResponse (Path ''/'') NoCookie, s1\<lparr>products := products s @ [p]\<rparr>)
                       else (DatabaseError, s1)))"

definition product_detail :: "int \<Rightarrow> user option \<Rightarrow> state \<Rightarrow> response \<times> state" where
  "product_detail pid current_user s =
     (case first (filter (\<lambda>p. p_id p = pid) (products s)) of
        None \<Rightarrow> (HTTPException 404 ''Producto no encontrado'', s)
      | Some p \<Rightarrow>
          let user_has_rated =
                (case current_user of
                   None \<Rightarrow> False
                 | Some cu \<Rightarrow>
                     first (filter (\<lambda>r. user_id r = u_id cu \<and> product_id r = pid) (ratings s)) \<noteq> None)
          in (ProductDetailPage p (rating_count s (p_id p)) user_has_rated current_user, s))"

definition edit_product_form :: "int \<Rightarrow> user option \<Rightarrow> state \<Rightarrow> response \<times> state" where
  "edit_product_form pid current_user s =
     (case current_user of
        None \<Rightarrow> (RedirectResponse (Path ''/login'') NoCookie, s)
      | Some cu \<Rightarrow>
          (case first (filter (\<lambda>p. p_id p = pid \<and> owner_id p = u_id cu) (products s)) of
             None \<Rightarrow>
               (HTTPException 404 ''Producto no encontrado o no tienes permiso para editarlo'', s)
           | Some p \<Rightarrow> (EditProductPage p cu, s)))"

text \<open>
  The test \<^verbatim>\<open>image and image.filename\<close>: the upload, when there is one and its file name
  is not empty.
\<close>

definition uploaded :: "upload option \<Rightarrow> upload option" where
  "uploaded img = (case img of None \<Rightarrow> None | Some i \<Rightarrow> if filename i \<noteq> [] then Some i else None)"

text \<open>
  \<^verbatim>\<open>edit_product\<close> assigns the four form fields to the row it found, replaces the image
  when one is uploaded with a file name, and commits: the row with that primary key is
  rewritten. When opening the new file raises, the old file is already removed and the
  row is not rewritten; when the commit raises, the files are already replaced.
\<close>

definition edit_product ::
  "env \<Rightarrow> int \<Rightarrow> string \<Rightarrow> string \<Rightarrow> pyfloat \<Rightarrow> int \<Rightarrow> upload option \<Rightarrow> user option \<Rightarrow> state
     \<Rightarrow> response \<times> state" where
  "edit_product e pid nm descr pr st img current_user s =
     (case current_user of
        None \<Rightarrow> (RedirectResponse (Path ''/login'') NoCookie, s)
      | Some cu \<Rightarrow>
          (case first (filter (\<lambda>p. p_id p = pid \<and> owner_id p = u_id cu) (products s)) of
             None \<Rightarrow>
               (HTTPException 404 ''Producto no encontrado o no tienes permiso para editarlo'', s)
           | Some p \<Rightarrow>
               (case uploaded img of
                  None \<Rightarrow>
                    if column_values_ok e pr st
                    then (RedirectResponse (ProductPath pid) NoCookie,
                          s\<lparr>products :=
                              map (\<lambda>q. if p_id q = p_id p
                                       then q\<lparr>name := nm, description := descr, price := pr,
                                              stock := st\<rparr>
                                       else q) (products s)\<rparr>)
                    else (DatabaseError, s)
                | Some i \<Rightarrow>
                    let s1 = s\<lparr>files := (files s)(image_path (image p) := None)\<rparr>;
                        image_filename = uuid_str (uuid4 e) @ ''_'' @ filename i
                    in (case open_wb e image_filename of
                          Some exn \<Rightarrow> (exn, s1)
                        | None \<Rightarrow>
                            let s2 = s1\<lparr>files := (files s1)(image_path image_filename \<mapsto> content i)\<rparr>
                            in if column_values_ok e pr st
                               then (RedirectResponse (ProductPath pid) NoCookie,
                                     s2\<lparr>products :=
                                          map (\<lambda>q. if p_id q = p_id p
                                                   then q\<lparr>name := nm, description := descr,
                                                          price := pr, stock := st,
                                                          image := image_filename\<rparr>
                                                   else q) (products s)\<rparr>)
                               else (DatabaseError, s2)))))"

text \<open>
  \<^verbatim>\<open>delete_product\<close> removes the image file first and then deletes the row; when the commit
  raises, the file is already gone.
\<close>

definition delete_product :: "int \<Rightarrow> user option \<Rightarrow> state \<Rightarrow> response \<times> state" where
  "delete_product pid current_user s =
     (case current_user of
        None \<Rightarrow> (RedirectResponse (Path ''/login'') NoCookie, s)
      | Some cu \<Rightarrow>
          (case first (filter (\<lambda>p. p_id p = pid \<and> owner_id p = u_id cu) (products s)) of
             None \<Rightarrow>
               (HTTPException 404 ''Producto no encontrado o no tienes permiso para eliminarlo'', s)
           | Some p \<Rightarrow>
               let s1 = s\<lparr>files := (files s)(image_path (image p) := None)\<rparr>
               in (case db_delete_product p s1 of
                     (None, s2) \<Rightarrow> (IntegrityError, s2)
                   | (Some u, s2) \<Rightarrow> (RedirectResponse (Path ''/'') NoCookie, s2))))"

definition user_detail :: "int \<Rightarrow> user option \<Rightarrow> state \<Rightarrow> response \<times> state" where
  "user_detail uid current_user s =
     (case first (filter (\<lambda>u. u_id u = uid) (users s)) of
        None \<Rightarrow> (HTTPException 404 ''Usuario no encontrado'', s)
      | Some u \<Rightarrow> (UserDetailPage u current_user, s))"

text \<open>
  \<^verbatim>\<open>rate_product\<close>, one request at a time. The detail of the 401 answer is written
  without the accent of the source text.
\<close>

definition rate_product :: "int \<Rightarrow> user option \<Rightarrow> state \<Rightarrow> response \<times> state" where
  "rate_product pid current_user s =
     (case current_user of
        None \<Rightarrow> (HTTPException 401 ''Debes iniciar sesion para puntuar un producto'', s)
      | Some cu \<Rightarrow>
          (case first (filter (\<lambda>p. p_id p = pid) (products s)) of
             None \<Rightarrow> (HTTPException 404 ''Producto no encontrado'', s)
           | Some p \<Rightarrow>
               (case first (filter (\<lambda>r. user_id r = u_id cu \<and> product_id r = pid) (ratings s)) of
                  Some existing_rating \<Rightarrow> (HTTPException 400 ''Ya has puntuado este producto'', s)
                | None \<Rightarrow>
                    let r = \<lparr>r_id = next_id (map r_id (ratings s)), user_id = u_id cu,
                             product_id = pid\<rparr>
                    in (RedirectResponse (ProductPath pid) NoCookie,
                        s\<lparr>ratings := ratings s @ [r]\<rparr>))))"

text \<open>
  \<^verbatim>\<open>rate_product\<close> in the two steps that another request can come between. The first
  runs up to the test of \<^verbatim>\<open>existing_rating\<close> and either answers or goes on with the user
  and the product id. The second is \<^verbatim>\<open>db.add(rating); db.commit()\<close> on the state the
  database then has: \<^verbatim>\<open>models.py\<close> declares \<^verbatim>\<open>UniqueConstraint('user_id', 'product_id')\<close>
  on the ratings, so the commit raises \<^verbatim>\<open>IntegrityError\<close> when a row for the pair is
  there; \<^verbatim>\<open>rate_product\<close> has no handler for it.
\<close>

definition rate_precheck :: "int \<Rightarrow> user option \<Rightarrow> state \<Rightarrow> response + user" where
  "rate_precheck pid current_user s =
     (case current_user of
        None \<Rightarrow> Inl (HTTPException 401 ''Debes iniciar sesion para puntuar un producto'')
      | Some cu \<Rightarrow>
          (case first (filter (\<lambda>p. p_id p = pid) (products s)) of
             None \<Rightarrow> Inl (HTTPException 404 ''Producto no encontrado'')
           | Some p \<Rightarrow>
               (case first (filter (\<lambda>r. user_id r = u_id cu \<and> product_id r = pid) (ratings s)) of
                  Some existing_rating \<Rightarrow> Inl (HTTPException 400 ''Ya has puntuado este producto'')
                | None \<Rightarrow> Inr cu)))"

definition rate_commit :: "int \<Rightarrow> user \<Rightarrow> state \<Rightarrow> response \<times> state" where
  "rate_commit pid cu s =
     (if filter (\<lambda>r. user_id r = u_id cu \<and> product_id r = pid) (ratings s) \<noteq> []
      then (IntegrityError, s)
      else (RedirectResponse (ProductPath pid) NoCookie,
            s\<lparr>ratings := ratings s @
                 [\<lparr>r_id = next_id (map r_id (ratings s)), user_id = u_id cu, product_id = pid\<rparr>]\<rparr>))"

section \<open>The application as a transition system\<close>

text \<open>
  A request names the route and carries the form and path parameters. The session cookie
  comes with it; \<^verbatim>\<open>Depends(get_current_user)\<close> resolves it before the handler runs.
\<close>

datatype request =
    GetRegister
  | PostRegister string string string string
  | GetLogin
  | PostLogin string string
  | Logout
  | ReadProducts
  | AddProductForm
  | AddProduct string string pyfloat int upload
  | ProductDetail int
  | EditProductForm int
  | EditProduct int string string pyfloat int "upload option"
  | DeleteProduct int
  | UserDetail int
  | RateProduct int

fun handle :: "env \<Rightarrow> string option \<Rightarrow> request \<Rightarrow> state \<Rightarrow> response \<times> state" where
  "handle e tok GetRegister s = (TemplateResponse ''register.html'' None, s)"
| "handle e tok (PostRegister uname mail password wa) s = register_user e uname mail password wa s"
| "handle e tok GetLogin s = (TemplateResponse ''login.html'' None, s)"
| "handle e tok (PostLogin uname password) s = login_user e uname password s"
| "handle e tok Logout s = logout tok s"
| "handle e tok ReadProducts s = read_products (get_current_user s tok) s"
| "handle e tok AddProductForm s = add_product_form (get_current_user s tok) s"
| "handle e tok (AddProduct nm descr pr st img) s =
     add_product e nm descr pr st img (get_current_user s tok) s"
| "handle e tok (ProductDetail pid) s = product_detail pid (get_current_user s tok) s"
| "handle e tok (EditProductForm pid) s = edit_product_form pid (get_current_user s tok) s"
| "handle e tok (EditProduct pid nm descr pr st img) s =
     edit_product e pid nm descr pr st img (get_current_user s tok) s"
| "handle e tok (DeleteProduct pid) s = delete_product pid (get_current_user s tok) s"
| "handle e tok (UserDetail uid) s = user_detail uid (get_current_user s tok) s"
| "handle e tok (RateProduct pid) s = rate_product pid (get_current_user s tok) s"

inductive reachable :: "state \<Rightarrow> bool" where
  reachable_init: "reachable init_state"
| reachable_step: "reachable s \<Longrightarrow> reachable (snd (handle e tok req s))"

text \<open>At most one rating row for each pair of a user and a product.\<close>

definition rating_unique :: "state \<Rightarrow> bool" where
  "rating_unique s = distinct (map (\<lambda>r. (user_id r, product_id r)) (ratings s))"

section \<open>Example data\<close>

text \<open>
  A small marketplace used to run the handlers on concrete inputs: two users with a
  session each, and one product of the first user. Its environment hashes every password
  without a NUL character, creates every file it is asked for, and has an engine with
  64-bit integers that does not store a NaN.
\<close>

definition example_env :: env where
  "example_env =
     \<lparr>uuid4 = 7, pwd_hash = (\<lambda>p. Some (''$2b$'' @ p)), pwd_verify = (\<lambda>p h. h = ''$2b$'' @ p),
      open_ok = (\<lambda>path. True),
      integer_min = - (2 ^ 63), integer_max = 2 ^ 63 - 1, float_ok = (\<lambda>f. f \<noteq> NaN)\<rparr>"

definition alice :: user where
  "alice = \<lparr>u_id = 1, username = ''alice'', email = ''alice@example.org'',
             hashed_password = ''$2b$a'', whatsapp = ''3001''\<rparr>"

definition bob :: user where
  "bob = \<lparr>u_id = 2, username = ''bob'', email = ''bob@example.org'',
           hashed_password = ''$2b$b'', whatsapp = ''3002''\<rparr>"

definition lamp :: product where
  "lamp = \<lparr>p_id = 1, name = ''lamp'', description = ''desk lamp'', price = Finite 10, stock = 5,
            image = ''u_lamp.png'', owner_id = 1\<rparr>"

definition example_state :: state where
  "example_state =
     \<lparr>users = [alice, bob], products = [lamp], ratings = [],
      sessions = [''ta'' \<mapsto> 1, ''tb'' \<mapsto> 2],
      files = [image_path ''u_lamp.png'' \<mapsto> [137, 80]]\<rparr>"

text \<open>The same marketplace after the second user has rated the product.\<close>

definition rated_state :: state where
  "rated_state = example_state\<lparr>ratings := [\<lparr>r_id = 1, user_id = 2, product_id = 1\<rparr>]\<rparr>"

text \<open>
  The end-to-end scenario: a first user registers and creates a product (the state
  \<open>listed_state\<close>), a second user registers and rates it. Each request draws its own
  uuid.
\<close>

definition env_with :: "nat \<Rightarrow> env" where
  "env_with n = example_env\<lparr>uuid4 := n\<rparr>"

definition listed_state :: state where
  "listed_state =
     snd (handle (env_with 9) (Some (uuid_str 7))
            (AddProduct ''lamp'' ''desk lamp'' (Finite 10) 5 \<lparr>filename = ''lamp.png'', content = [137, 80]\<rparr>)
            (snd (handle (env_with 7) None (PostRegister ''alice'' ''alice@example.org'' ''a'' ''3001'')
                    init_state)))"

definition scenario_state :: state where
  "scenario_state =
     (let s1 = snd (handle (env_with 7) None (PostRegister ''alice'' ''alice@example.org'' ''a'' ''3001'') init_state);
          s2 = snd (handle (env_with 9) (Some (uuid_str 7))
                      (AddProduct ''lamp'' ''desk lamp'' (Finite 10) 5 \<lparr>filename = ''lamp.png'', content = [137, 80]\<rparr>) s1);
          s3 = snd (handle (env_with 8) None (PostRegister ''bob'' ''bob@example.org'' ''b'' ''3002'') s2)
      in snd (handle (env_with 8) (Some (uuid_str 8)) (RateProduct 1) s3))"

section \<open>Auxiliary facts\<close>

lemmas ex_defs = example_state_def alice_def bob_def lamp_def example_env_def rated_state_def

lemma first_eq_None: "first xs = None \<longleftrightarrow> xs = []"
  by (cases xs) simp_all

lemma first_filter_None: "first (filter P xs) = None \<longleftrightarrow> (\<forall>x\<in>set xs. \<not> P x)"
  by (simp add: first_eq_None filter_empty_conv)

lemma first_filter_Some: "first (filter P xs) = Some x \<Longrightarrow> x \<in> set xs \<and> P x"
proof (induction xs)
  case Nil
  then show ?case by simp
next
  case (Cons a xs)
  then show ?case by (cases "P a") auto
qed

lemma first_filter_ex: "\<exists>x\<in>set xs. P x \<Longrightarrow> \<exists>y. first (filter P xs) = Some y"
  by (cases "first (filter P xs)") (auto simp: first_filter_None)

lemma first_filter_append_new:
  "\<forall>x\<in>set xs. \<not> P x \<Longrightarrow> P y \<Longrightarrow> first (filter P (xs @ [y])) = Some y"
  by (simp add: filter_empty_conv[THEN iffD2])

lemma fold_max_ge_start: "(a::int) \<le> fold max ids a"
proof (induction ids arbitrary: a)
  case Nil
  show ?case by simp
next
  case (Cons i ids)
  have "a \<le> max i a" by simp
  also have "max i a \<le> fold max ids (max i a)" by (rule Cons.IH)
  finally show ?case by simp
qed

lemma fold_max_ge_elem: "x \<in> set ids \<Longrightarrow> (x::int) \<le> fold max ids a"
proof (induction ids arbitrary: a)
  case Nil
  then show ?case by simp
next
  case (Cons i ids)
  show ?case
  proof (cases "x = i")
    case True
    have "i \<le> max i a" by simp
    also have "max i a \<le> fold max ids (max i a)" by (rule fold_max_ge_start)
    finally show ?thesis using True by simp
  next
    case False
    with Cons.prems have "x \<in> set ids" by simp
    then show ?thesis using Cons.IH by simp
  qed
qed

lemma next_id_fresh: "x \<in> set ids \<Longrightarrow> x < next_id ids"
  using fold_max_ge_elem[of x ids 0] by (simp add: next_id_def)

lemma uuid_str_nonempty: "uuid_str n \<noteq> []"
  by (simp add: uuid_str_def)

lemma rating_count_append:
  "rating_count (s\<lparr>ratings := ratings s @ [r]\<rparr>) pid =
     rating_count s pid + (if product_id r = pid then 1 else 0)"
  by (simp add: rating_count_def)

lemma open_wb_raises:
  "open_wb e nm = Some x \<Longrightarrow> x = ValueError \<or> x = FileNotFoundError \<or> x = OSError"
  by (auto simp: open_wb_def split: if_splits)

lemma hex_digit_in: "hex_digit d \<in> set ''0123456789abcdef''"
  unfolding hex_digit_def by (rule nth_mem) simp

lemma set_hex: "set (hex w n) \<subseteq> set ''0123456789abcdef''"
proof (induction w arbitrary: n)
  case 0
  show ?case by simp
next
  case (Suc w)
  have "set (hex (Suc w) n) = set (hex w (n div 16)) \<union> {hex_digit n}"
    by simp
  with Suc[of "n div 16"] hex_digit_in[of n] show ?case
    by blast
qed

lemma hex_plain: "c \<notin> set ''0123456789abcdef'' \<Longrightarrow> c \<notin> set (hex w n)"
  using set_hex[of w n] by blast

lemma uuid_str_plain:
  "c \<notin> set ''0123456789abcdef-'' \<Longrightarrow> c \<notin> set (uuid_str n)"
proof -
  assume c: "c \<notin> set ''0123456789abcdef-''"
  then have plain: "c \<notin> set ''0123456789abcdef''" and dash: "c \<noteq> CHR ''-''"
    by auto
  from plain have h: "c \<notin> set (hex w m)" for w m
    by (rule hex_plain)
  from dash show ?thesis
    by (simp add: uuid_str_def h)
qed

lemma image_name_opens:
  "CHR 0x00 \<notin> set nm \<Longrightarrow> CHR ''/'' \<notin> set nm \<Longrightarrow> open_ok e (image_path (uuid_str n @ ''_'' @ nm))
     \<Longrightarrow> open_wb e (uuid_str n @ ''_'' @ nm) = None"
proof -
  assume a: "CHR 0x00 \<notin> set nm" "CHR ''/'' \<notin> set nm" "open_ok e (image_path (uuid_str n @ ''_'' @ nm))"
  have "CHR 0x00 \<notin> set (uuid_str n)" "CHR ''/'' \<notin> set (uuid_str n)"
    by (rule uuid_str_plain, simp)+
  with a show ?thesis
    by (simp add: open_wb_def)
qed

section \<open>The end-to-end scenario\<close>

lemma last_uuid_str: "last (uuid_str n) = hex_digit n"
proof -
  have "hex 12 n = hex 11 (n div 16) @ [hex_digit n]"
    using hex.simps(2)[of 11 n] by simp
  then show ?thesis
    by (simp add: uuid_str_def)
qed

lemma uuid_7_8: "uuid_str 7 \<noteq> uuid_str 8"
proof
  assume "uuid_str 7 = uuid_str 8"
  then have "last (uuid_str 7) = last (uuid_str 8)" by simp
  then show False by (simp add: last_uuid_str hex_digit_def)
qed


lemma env_with_fields:
  "uuid4 (env_with n) = n"
  "hash_password (env_with n) ''a'' = Some ''$2b$a''"
  "hash_password (env_with n) ''b'' = Some ''$2b$b''"
  "open_ok (env_with n) path"
  "column_values_ok (env_with n) (Finite 10) 5"
  by (simp_all add: env_with_def example_env_def hash_password_def column_values_ok_def)

lemma listed_tables:
  shows "users listed_state = [alice]"
    and "products listed_state = [lamp\<lparr>image := uuid_str 9 @ ''_lamp.png''\<rparr>]"
    and "ratings listed_state = []"
    and "sessions listed_state = [uuid_str 7 \<mapsto> 1]"
proof -
  define s1 where
    "s1 = snd (handle (env_with 7) None (PostRegister ''alice'' ''alice@example.org'' ''a'' ''3001'') init_state)"
  have ls: "listed_state = snd (handle (env_with 9) (Some (uuid_str 7))
                 (AddProduct ''lamp'' ''desk lamp'' (Finite 10) 5 \<lparr>filename = ''lamp.png'', content = [137, 80]\<rparr>) s1)"
    unfolding listed_state_def s1_def ..
  have t1: "users s1 = [alice]" "products s1 = []" "ratings s1 = []"
    "sessions s1 = [uuid_str 7 \<mapsto> 1]"
    by (simp_all add: s1_def register_user_def env_with_fields Let_def next_id_def
          init_state_def alice_def)
  have cu1: "get_current_user s1 (Some (uuid_str 7)) = Some alice"
    by (simp add: get_current_user_def t1 uuid_str_nonempty alice_def)
  have op: "open_wb (env_with 9) (uuid_str 9 @ ''_'' @ ''lamp.png'') = None"
    by (rule image_name_opens) (simp_all add: env_with_fields)
  show "users listed_state = [alice]"
    and "products listed_state = [lamp\<lparr>image := uuid_str 9 @ ''_lamp.png''\<rparr>]"
    and "ratings listed_state = []"
    and "sessions listed_state = [uuid_str 7 \<mapsto> 1]"
    using op
    by (simp_all add: ls add_product_def cu1 env_with_fields Let_def t1 next_id_def
          alice_def lamp_def)
qed

lemma listed_reachable: "reachable listed_state"
  unfolding listed_state_def by (intro reachable_step reachable_init)

lemma scenario_tables:
  shows "users scenario_state = [alice, bob]"
    and "products scenario_state = [lamp\<lparr>image := uuid_str 9 @ ''_lamp.png''\<rparr>]"
    and "ratings scenario_state = [\<lparr>r_id = 1, user_id = 2, product_id = 1\<rparr>]"
    and "sessions scenario_state (uuid_str 7) = Some 1"
proof -
  define s3 where
    "s3 = snd (handle (env_with 8) None (PostRegister ''bob'' ''bob@example.org'' ''b'' ''3002'') listed_state)"
  have sc: "scenario_state = snd (handle (env_with 8) (Some (uuid_str 8)) (RateProduct 1) s3)"
    unfolding scenario_state_def Let_def s3_def listed_state_def ..
  have t3: "users s3 = [alice, bob]" "products s3 = [lamp\<lparr>image := uuid_str 9 @ ''_lamp.png''\<rparr>]"
    "ratings s3 = []" "sessions s3 = [uuid_str 7 \<mapsto> 1, uuid_str 8 \<mapsto> 2]"
    by (simp_all add: s3_def register_user_def env_with_fields Let_def listed_tables next_id_def
          alice_def bob_def)
  have cu3: "get_current_user s3 (Some (uuid_str 8)) = Some bob"
    by (simp add: get_current_user_def t3 uuid_str_nonempty alice_def bob_def)
  have t4: "users scenario_state = [alice, bob]"
    "products scenario_state = [lamp\<lparr>image := uuid_str 9 @ ''_lamp.png''\<rparr>]"
    "ratings scenario_state = [\<lparr>r_id = 1, user_id = 2, product_id = 1\<rparr>]"
    "sessions scenario_state = [uuid_str 7 \<mapsto> 1, uuid_str 8 \<mapsto> 2]"
    by (simp_all add: sc rate_product_def cu3 t3 Let_def next_id_def lamp_def bob_def)
  show "users scenario_state = [alice, bob]"
    and "products scenario_state = [lamp\<lparr>image := uuid_str 9 @ ''_lamp.png''\<rparr>]"
    and "ratings scenario_state = [\<lparr>r_id = 1, user_id = 2, product_id = 1\<rparr>]"
    by (rule t4)+
  show "sessions scenario_state (uuid_str 7) = Some 1"
    by (simp add: t4 uuid_7_8)
qed

section \<open>Rating one's own product\<close>

text \<open>
  Claim C8. An authenticated user who owns a product and has no rating row for it can rate
  it: \<^verbatim>\<open>rate_product\<close> never looks at the product's owner. The request is answered with
  the redirect to the product page and exactly the new rating row is appended.
\<close>

theorem owner_may_rate_own_product:
  assumes auth: "get_current_user s tok = Some cu"
    and found: "first (filter (\<lambda>p. p_id p = pid) (products s)) = Some p"
    and owner: "owner_id p = u_id cu"
    and fresh: "\<forall>r\<in>set (ratings s). \<not> (user_id r = u_id cu \<and> product_id r = pid)"
  shows "handle e tok (RateProduct pid) s =
           (RedirectResponse (ProductPath pid) NoCookie,
            s\<lparr>ratings := ratings s @
                 [\<lparr>r_id = next_id (map r_id (ratings s)), user_id = u_id cu, product_id = pid\<rparr>]\<rparr>)"
proof -
  from fresh have "first (filter (\<lambda>r. user_id r = u_id cu \<and> product_id r = pid) (ratings s)) = None"
    by (simp add: first_filter_None)
  with auth found show ?thesis
    by (simp add: rate_product_def)
qed

theorem owner_may_rate_own_product_witness:
  "handle example_env (Some ''ta'') (RateProduct 1) example_state =
     (RedirectResponse (ProductPath 1) NoCookie,
      example_state\<lparr>ratings := [\<lparr>r_id = 1, user_id = 1, product_id = 1\<rparr>]\<rparr>)"
proof -
  have auth: "get_current_user example_state (Some ''ta'') = Some alice"
    by (simp add: get_current_user_def ex_defs)
  have found: "first (filter (\<lambda>p. p_id p = 1) (products example_state)) = Some lamp"
    by (simp add: ex_defs)
  have owner: "owner_id lamp = u_id alice"
    by (simp add: ex_defs)
  have fresh: "\<forall>r\<in>set (ratings example_state). \<not> (user_id r = u_id alice \<and> product_id r = 1)"
    by (simp add: ex_defs)
  show ?thesis
    using owner_may_rate_own_product [OF auth found owner fresh, of example_env]
    by (simp add: ex_defs next_id_def)
qed

section \<open>Rating a product\<close>

text \<open>
  Claim C4. \<^verbatim>\<open>rate_product\<close> checks in this order: an anonymous requester gets 401
  (Unauthenticated); an authenticated one gets 404 (NotFound) when no product has the id,
  and 400 (AlreadyRated) when the product exists and a rating row for the pair of the user
  and the product exists. Otherwise the request succeeds and appends exactly one rating
  row, leaving users and products alone; the rating count of the product grows by one;
  the same request again is answered 400 and changes nothing, so after both calls the
  count is one more than before.
\<close>

theorem rate_product_outcomes:
  "(rate_product pid None s =
      (HTTPException 401 ''Debes iniciar sesion para puntuar un producto'', s))
   \<and> ((\<forall>p\<in>set (products s). p_id p \<noteq> pid) \<longrightarrow>
        rate_product pid (Some cu) s = (HTTPException 404 ''Producto no encontrado'', s))
   \<and> ((\<exists>p\<in>set (products s). p_id p = pid)
        \<and> (\<exists>r\<in>set (ratings s). user_id r = u_id cu \<and> product_id r = pid) \<longrightarrow>
        rate_product pid (Some cu) s = (HTTPException 400 ''Ya has puntuado este producto'', s))
   \<and> ((\<exists>p\<in>set (products s). p_id p = pid)
        \<and> (\<forall>r\<in>set (ratings s). \<not> (user_id r = u_id cu \<and> product_id r = pid)) \<longrightarrow>
        (let s1 = snd (rate_product pid (Some cu) s); s2 = snd (rate_product pid (Some cu) s1)
         in fst (rate_product pid (Some cu) s) = RedirectResponse (ProductPath pid) NoCookie
            \<and> ratings s1 = ratings s @
                 [\<lparr>r_id = next_id (map r_id (ratings s)), user_id = u_id cu, product_id = pid\<rparr>]
            \<and> users s1 = users s \<and> products s1 = products s
            \<and> rating_count s1 pid = rating_count s pid + 1
            \<and> fst (rate_product pid (Some cu) s1) = HTTPException 400 ''Ya has puntuado este producto''
            \<and> s2 = s1
            \<and> rating_count s2 pid = rating_count s pid + 1))"
proof (intro conjI impI)
  show "rate_product pid None s =
      (HTTPException 401 ''Debes iniciar sesion para puntuar un producto'', s)"
    by (simp add: rate_product_def)
next
  assume "\<forall>p\<in>set (products s). p_id p \<noteq> pid"
  then have "first (filter (\<lambda>p. p_id p = pid) (products s)) = None"
    by (simp add: first_filter_None)
  then show "rate_product pid (Some cu) s = (HTTPException 404 ''Producto no encontrado'', s)"
    by (simp add: rate_product_def)
next
  assume a: "(\<exists>p\<in>set (products s). p_id p = pid)
        \<and> (\<exists>r\<in>set (ratings s). user_id r = u_id cu \<and> product_id r = pid)"
  then obtain p where p: "first (filter (\<lambda>p. p_id p = pid) (products s)) = Some p"
    using first_filter_ex[of "products s" "\<lambda>p. p_id p = pid"] by blast
  from a obtain r where r: "first (filter (\<lambda>r. user_id r = u_id cu \<and> product_id r = pid) (ratings s)) = Some r"
    using first_filter_ex[of "ratings s" "\<lambda>r. user_id r = u_id cu \<and> product_id r = pid"] by blast
  from p r show "rate_product pid (Some cu) s = (HTTPException 400 ''Ya has puntuado este producto'', s)"
    by (simp add: rate_product_def)
next
  assume a: "(\<exists>p\<in>set (products s). p_id p = pid)
        \<and> (\<forall>r\<in>set (ratings s). \<not> (user_id r = u_id cu \<and> product_id r = pid))"
  define r where "r = \<lparr>r_id = next_id (map r_id (ratings s)), user_id = u_id cu, product_id = pid\<rparr>"
  define s1 where "s1 = s\<lparr>ratings := ratings s @ [r]\<rparr>"
  from a obtain p where p: "first (filter (\<lambda>p. p_id p = pid) (products s)) = Some p"
    using first_filter_ex[of "products s" "\<lambda>p. p_id p = pid"] by blast
  from a have n: "first (filter (\<lambda>r. user_id r = u_id cu \<and> product_id r = pid) (ratings s)) = None"
    by (simp add: first_filter_None)
  from p n have one: "rate_product pid (Some cu) s = (RedirectResponse (ProductPath pid) NoCookie, s1)"
    by (simp add: rate_product_def s1_def r_def)
  have p1: "first (filter (\<lambda>p. p_id p = pid) (products s1)) = Some p"
    using p by (simp add: s1_def)
  have "\<exists>x\<in>set (ratings s1). user_id x = u_id cu \<and> product_id x = pid"
    by (simp add: s1_def r_def)
  then obtain r' where
    r': "first (filter (\<lambda>r. user_id r = u_id cu \<and> product_id r = pid) (ratings s1)) = Some r'"
    using first_filter_ex[of "ratings s1" "\<lambda>r. user_id r = u_id cu \<and> product_id r = pid"] by blast
  from p1 r' have two: "rate_product pid (Some cu) s1 = (HTTPException 400 ''Ya has puntuado este producto'', s1)"
    by (simp add: rate_product_def)
  have cnt: "rating_count s1 pid = rating_count s pid + 1"
    by (simp add: s1_def rating_count_append r_def)
  show "let s1 = snd (rate_product pid (Some cu) s); s2 = snd (rate_product pid (Some cu) s1)
         in fst (rate_product pid (Some cu) s) = RedirectResponse (ProductPath pid) NoCookie
            \<and> ratings s1 = ratings s @
                 [\<lparr>r_id = next_id (map r_id (ratings s)), user_id = u_id cu, product_id = pid\<rparr>]
            \<and> users s1 = users s \<and> products s1 = products s
            \<and> rating_count s1 pid = rating_count s pid + 1
            \<and> fst (rate_product pid (Some cu) s1) = HTTPException 400 ''Ya has puntuado este producto''
            \<and> s2 = s1
            \<and> rating_count s2 pid = rating_count s pid + 1"
    unfolding Let_def one two snd_conv fst_conv
    using cnt by (simp add: s1_def r_def)
qed


theorem rate_product_outcomes_witness:
  "rate_product 9 (Some alice) example_state = (HTTPException 404 ''Producto no encontrado'', example_state)
   \<and> rate_product 1 (Some bob) rated_state = (HTTPException 400 ''Ya has puntuado este producto'', rated_state)
   \<and> snd (rate_product 1 (Some bob) example_state) = rated_state
   \<and> rating_count example_state 1 = 0
   \<and> rating_count (snd (rate_product 1 (Some bob) (snd (rate_product 1 (Some bob) example_state)))) 1 = 1"
proof -
  have absent: "\<forall>p\<in>set (products example_state). p_id p \<noteq> 9"
    by (simp add: ex_defs)
  have present: "\<exists>p\<in>set (products example_state). p_id p = 1"
    by (simp add: ex_defs)
  have present': "\<exists>p\<in>set (products rated_state). p_id p = 1"
    by (simp add: ex_defs)
  have rated: "\<exists>r\<in>set (ratings rated_state). user_id r = u_id bob \<and> product_id r = 1"
    by (simp add: ex_defs)
  have unrated: "\<forall>r\<in>set (ratings example_state). \<not> (user_id r = u_id bob \<and> product_id r = 1)"
    by (simp add: ex_defs)
  have zero: "rating_count example_state 1 = 0"
    by (simp add: rating_count_def ex_defs)
  have a: "rate_product 9 (Some alice) example_state = (HTTPException 404 ''Producto no encontrado'', example_state)"
    using rate_product_outcomes [of 9 example_state alice] absent by blast
  have b: "rate_product 1 (Some bob) rated_state = (HTTPException 400 ''Ya has puntuado este producto'', rated_state)"
    using rate_product_outcomes [of 1 rated_state bob] present' rated by blast
  have c: "rating_count (snd (rate_product 1 (Some bob) (snd (rate_product 1 (Some bob) example_state)))) 1 = 1"
    using rate_product_outcomes [of 1 example_state bob] present unrated zero
    by (simp add: Let_def)
  have d: "snd (rate_product 1 (Some bob) example_state) = rated_state"
    by (simp add: rate_product_def ex_defs next_id_def)
  from a b c d zero show ?thesis by simp
qed

section \<open>Registration\<close>

text \<open>
  Claim C7 says that a registration with a free username and a free email always succeeds
  and returns a new session token. \<^verbatim>\<open>register_user\<close> hashes the password before it
  inserts the user, and bcrypt refuses a password with a NUL character: with the free
  name \<^verbatim>\<open>carol\<close>, a free email and the one-character password NUL the request ends in
  \<^verbatim>\<open>ValueError\<close> and no user is created. The handler also stores the token without looking
  whether it is in use: when the draw of an earlier registration comes again, the token
  returned is the one the earlier user holds.
\<close>

theorem register_user_counterexample:
  "''carol'' \<notin> set (map username (users example_state))
   \<and> ''carol@example.org'' \<notin> set (map email (users example_state))
   \<and> register_user example_env ''carol'' ''carol@example.org'' [CHR 0x00] ''3003'' example_state
       = (ValueError, example_state)
   \<and> sessions (snd (register_user example_env ''carol'' ''carol@example.org'' ''pw'' ''3003''
                      example_state)) (uuid_str 7) = Some 3
   \<and> fst (register_user example_env ''dave'' ''dave@example.org'' ''pw'' ''3004''
           (snd (register_user example_env ''carol'' ''carol@example.org'' ''pw'' ''3003''
                   example_state)))
       = RedirectResponse (Path ''/'') (SetCookie (uuid_str 7))"
  by (simp add: register_user_def hash_password_def next_id_def Let_def ex_defs)

text \<open>
  Claim C7 as amended. When some user already has the chosen username or the chosen email,
  registration answers with the form and its conflict message and changes nothing, so no
  user is created. When neither is taken and the password is hashed, it appends the new
  user row and answers with the redirect that sets the session cookie to the token
  rendered from the uuid drawn; that token resolves (through \<^verbatim>\<open>get_current_user\<close>) to the
  new user, every other token keeps its session, and the tokens in use are the earlier
  ones and this one. The token is a new one exactly when the draw is not in use already,
  which the handler does not check.
\<close>

theorem register_user_conflict_or_session:
  "((\<exists>u\<in>set (users s). username u = uname \<or> email u = mail) \<longrightarrow>
      register_user e uname mail password wa s =
        (TemplateResponse ''register.html'' (Some ''El usuario o el correo ya existen''), s))
   \<and> ((\<forall>u\<in>set (users s). username u \<noteq> uname \<and> email u \<noteq> mail)
        \<and> hash_password e password = Some hashed \<longrightarrow>
        (let tok = uuid_str (uuid4 e);
             s' = snd (register_user e uname mail password wa s);
             u = \<lparr>u_id = next_id (map u_id (users s)), username = uname, email = mail,
                  hashed_password = hashed, whatsapp = wa\<rparr>
         in fst (register_user e uname mail password wa s)
              = RedirectResponse (Path ''/'') (SetCookie tok)
            \<and> users s' = users s @ [u]
            \<and> products s' = products s \<and> ratings s' = ratings s \<and> files s' = files s
            \<and> sessions s' tok = Some (u_id u)
            \<and> get_current_user s' (Some tok) = Some u
            \<and> (\<forall>t. t \<noteq> tok \<longrightarrow> sessions s' t = sessions s t)
            \<and> dom (sessions s') = insert tok (dom (sessions s))))"
proof (intro conjI impI)
  assume "\<exists>u\<in>set (users s). username u = uname \<or> email u = mail"
  then obtain x where "first (filter (\<lambda>u. username u = uname \<or> email u = mail) (users s)) = Some x"
    using first_filter_ex[of "users s" "\<lambda>u. username u = uname \<or> email u = mail"] by blast
  then show "register_user e uname mail password wa s =
        (TemplateResponse ''register.html'' (Some ''El usuario o el correo ya existen''), s)"
    by (simp add: register_user_def)
next
  assume a: "(\<forall>u\<in>set (users s). username u \<noteq> uname \<and> email u \<noteq> mail)
        \<and> hash_password e password = Some hashed"
  define u where "u = \<lparr>u_id = next_id (map u_id (users s)), username = uname, email = mail,
                  hashed_password = hashed, whatsapp = wa\<rparr>"
  define tok where "tok = uuid_str (uuid4 e)"
  define s' where "s' = s\<lparr>users := users s @ [u], sessions := (sessions s)(tok \<mapsto> u_id u)\<rparr>"
  from a have "first (filter (\<lambda>u. username u = uname \<or> email u = mail) (users s)) = None"
    by (auto simp add: first_filter_None)
  with a have reg: "register_user e uname mail password wa s =
      (RedirectResponse (Path ''/'') (SetCookie tok), s')"
    by (simp add: register_user_def Let_def s'_def u_def tok_def)
  have other: "\<forall>x\<in>set (users s). \<not> u_id x = u_id u"
  proof
    fix x assume "x \<in> set (users s)"
    then have "u_id x < next_id (map u_id (users s))"
      by (intro next_id_fresh) simp
    then show "\<not> u_id x = u_id u" by (simp add: u_def)
  qed
  have "first (filter (\<lambda>x. u_id x = u_id u) (users s @ [u])) = Some u"
    using other by (rule first_filter_append_new) simp
  then have cur: "get_current_user s' (Some tok) = Some u"
    by (simp add: get_current_user_def s'_def tok_def uuid_str_nonempty)
  have doms: "dom (sessions s') = insert tok (dom (sessions s))"
    by (simp add: s'_def)
  show "let tok = uuid_str (uuid4 e);
             s' = snd (register_user e uname mail password wa s);
             u = \<lparr>u_id = next_id (map u_id (users s)), username = uname, email = mail,
                  hashed_password = hashed, whatsapp = wa\<rparr>
         in fst (register_user e uname mail password wa s)
              = RedirectResponse (Path ''/'') (SetCookie tok)
            \<and> users s' = users s @ [u]
            \<and> products s' = products s \<and> ratings s' = ratings s \<and> files s' = files s
            \<and> sessions s' tok = Some (u_id u)
            \<and> get_current_user s' (Some tok) = Some u
            \<and> (\<forall>t. t \<noteq> tok \<longrightarrow> sessions s' t = sessions s t)
            \<and> dom (sessions s') = insert tok (dom (sessions s))"
    unfolding Let_def reg fst_conv snd_conv
    using cur doms by (simp add: s'_def u_def tok_def)
qed

theorem register_user_conflict_or_session_witness:
  "register_user example_env ''carol'' ''bob@example.org'' ''pw'' ''3003'' example_state =
     (TemplateResponse ''register.html'' (Some ''El usuario o el correo ya existen''), example_state)
   \<and> users (snd (register_user example_env ''carol'' ''carol@example.org'' ''pw'' ''3003'' example_state))
        = [alice, bob, \<lparr>u_id = 3, username = ''carol'', email = ''carol@example.org'',
                        hashed_password = ''$2b$pw'', whatsapp = ''3003''\<rparr>]
   \<and> get_current_user
        (snd (register_user example_env ''carol'' ''carol@example.org'' ''pw'' ''3003'' example_state))
        (Some (uuid_str 7))
        = Some \<lparr>u_id = 3, username = ''carol'', email = ''carol@example.org'',
                 hashed_password = ''$2b$pw'', whatsapp = ''3003''\<rparr>"
proof -
  have taken: "\<exists>u\<in>set (users example_state). username u = ''carol'' \<or> email u = ''bob@example.org''"
    by (simp add: ex_defs)
  have free: "\<forall>u\<in>set (users example_state). username u \<noteq> ''carol'' \<and> email u \<noteq> ''carol@example.org''"
    by (simp add: ex_defs)
  have hashed: "hash_password example_env ''pw'' = Some ''$2b$pw''"
    by (simp add: hash_password_def example_env_def)
  have nid: "next_id (map u_id (users example_state)) = 3"
    by (simp add: next_id_def ex_defs)
  have draw: "uuid4 example_env = 7"
    by (simp add: example_env_def)
  have a: "register_user example_env ''carol'' ''bob@example.org'' ''pw'' ''3003'' example_state =
     (TemplateResponse ''register.html'' (Some ''El usuario o el correo ya existen''), example_state)"
    using register_user_conflict_or_session
            [of example_state "''carol''" "''bob@example.org''" example_env "''pw''" "''3003''"] taken
    by blast
  have b: "users (snd (register_user example_env ''carol'' ''carol@example.org'' ''pw'' ''3003'' example_state))
        = users example_state @ [\<lparr>u_id = 3, username = ''carol'', email = ''carol@example.org'',
                        hashed_password = ''$2b$pw'', whatsapp = ''3003''\<rparr>]
   \<and> get_current_user
        (snd (register_user example_env ''carol'' ''carol@example.org'' ''pw'' ''3003'' example_state))
        (Some (uuid_str 7))
        = Some \<lparr>u_id = 3, username = ''carol'', email = ''carol@example.org'',
                 hashed_password = ''$2b$pw'', whatsapp = ''3003''\<rparr>"
    using register_user_conflict_or_session
            [of example_state "''carol''" "''carol@example.org''" example_env "''pw''" "''3003''"
                "''$2b$pw''"] free hashed nid draw
    by (simp add: Let_def)
  have c: "users example_state = [alice, bob]"
    by (simp add: example_state_def)
  from a b c show ?thesis by simp
qed

section \<open>What an update changes\<close>

text \<open>
  Claim C9. A successful \<^verbatim>\<open>edit_product\<close> (answered with the redirect to the product page)
  leaves the users, the ratings and the sessions as they were and keeps every product row
  in its place. A row with another id is unchanged. A row with the requested id keeps its
  id and its owner and differs from the old row at most in name, description, price,
  stock and image, and the image reference is replaced only when an image with a file
  name is uploaded.
\<close>

theorem edit_product_frame:
  assumes ok: "fst (edit_product e pid nm descr pr st img current_user s)
                 = RedirectResponse (ProductPath pid) NoCookie"
  shows "let s' = snd (edit_product e pid nm descr pr st img current_user s)
         in users s' = users s \<and> ratings s' = ratings s \<and> sessions s' = sessions s
            \<and> length (products s') = length (products s)
            \<and> (\<forall>i<length (products s).
                  let q = products s ! i; q' = products s' ! i
                  in p_id q' = p_id q \<and> owner_id q' = owner_id q
                     \<and> (p_id q \<noteq> pid \<longrightarrow> q' = q)
                     \<and> (p_id q = pid \<longrightarrow>
                          q' = q\<lparr>name := nm, description := descr, price := pr, stock := st,
                                 image := (case uploaded img of
                                             None \<Rightarrow> image q
                                           | Some i \<Rightarrow> uuid_str (uuid4 e) @ ''_'' @ filename i)\<rparr>))"
proof -
  from ok obtain cu where cu: "current_user = Some cu"
    by (cases current_user) (auto simp: edit_product_def)
  from ok cu obtain p where
    p: "first (filter (\<lambda>p. p_id p = pid \<and> owner_id p = u_id cu) (products s)) = Some p"
    by (cases "first (filter (\<lambda>p. p_id p = pid \<and> owner_id p = u_id cu) (products s))")
       (auto simp: edit_product_def)
  from first_filter_Some[OF p] have pid: "p_id p = pid" by simp
  show ?thesis
  proof (cases "uploaded img")
    case None
    with ok cu p have "column_values_ok e pr st"
      by (simp add: edit_product_def split: if_splits)
    with None cu p pid show ?thesis
      by (simp add: edit_product_def Let_def)
  next
    case (Some i)
    with ok cu p have opened: "open_wb e (uuid_str (uuid4 e) @ ''_'' @ filename i) = None"
      by (cases "open_wb e (uuid_str (uuid4 e) @ ''_'' @ filename i)")
         (auto simp: edit_product_def Let_def dest: open_wb_raises)
    with ok Some cu p have "column_values_ok e pr st"
      by (simp add: edit_product_def Let_def split: if_splits)
    with opened Some cu p pid show ?thesis
      by (simp add: edit_product_def Let_def)
  qed
qed

theorem edit_product_frame_witness:
  "products (snd (edit_product example_env 1 ''lamp2'' ''new'' (Finite 12) 4 None (Some alice) example_state))
     = [lamp\<lparr>name := ''lamp2'', description := ''new'', price := Finite 12, stock := 4\<rparr>]
   \<and> users (snd (edit_product example_env 1 ''lamp2'' ''new'' (Finite 12) 4 None (Some alice) example_state))
     = users example_state"
proof -
  have ok: "fst (edit_product example_env 1 ''lamp2'' ''new'' (Finite 12) 4 None (Some alice) example_state)
              = RedirectResponse (ProductPath 1) NoCookie"
    by (simp add: edit_product_def uploaded_def column_values_ok_def ex_defs)
  have len: "length (products example_state) = 1" and nth: "products example_state ! 0 = lamp"
    and pid: "p_id lamp = 1"
    by (simp_all add: ex_defs)
  from edit_product_frame [OF ok] len nth pid
  have "users (snd (edit_product example_env 1 ''lamp2'' ''new'' (Finite 12) 4 None (Some alice) example_state))
          = users example_state
        \<and> length (products (snd (edit_product example_env 1 ''lamp2'' ''new'' (Finite 12) 4 None (Some alice) example_state))) = 1
        \<and> products (snd (edit_product example_env 1 ''lamp2'' ''new'' (Finite 12) 4 None (Some alice) example_state)) ! 0
          = lamp\<lparr>name := ''lamp2'', description := ''new'', price := Finite 12, stock := 4\<rparr>"
    by (simp add: Let_def uploaded_def)
  then show ?thesis
    by (cases "products (snd (edit_product example_env 1 ''lamp2'' ''new'' (Finite 12) 4 None (Some alice) example_state))")
       auto
qed

section \<open>Updates and deletions by someone who is not the owner\<close>

text \<open>
  Claim C3 says that every requester who does not own the product, the anonymous one
  included, gets the merged not-found-or-no-permission signal. The handlers test
  \<^verbatim>\<open>if not current_user\<close> first: the anonymous requester is redirected to the login
  page and never reaches the ownership query.
\<close>

theorem anonymous_edit_delete_counterexample:
  "fst (edit_product example_env 1 ''x'' ''y'' (Finite 1) 1 None None example_state)
     = RedirectResponse (Path ''/login'') NoCookie
   \<and> fst (edit_product example_env 1 ''x'' ''y'' (Finite 1) 1 None None example_state)
     \<noteq> HTTPException 404 ''Producto no encontrado o no tienes permiso para editarlo''
   \<and> fst (delete_product 1 None example_state) = RedirectResponse (Path ''/login'') NoCookie
   \<and> fst (delete_product 1 None example_state)
     \<noteq> HTTPException 404 ''Producto no encontrado o no tienes permiso para eliminarlo''"
  by (simp add: edit_product_def delete_product_def)

text \<open>
  Claim C3 as amended. For every product id: the anonymous requester is redirected to the
  login page by \<^verbatim>\<open>edit_product\<close> and by \<^verbatim>\<open>delete_product\<close>; an authenticated requester
  who owns no product with that id (because the product is someone else's or because no
  product has the id) gets the one 404 answer of the handler. In both cases the state is
  returned unchanged: products, ratings, users, sessions and image files.
\<close>

theorem non_owner_edit_delete_rejected:
  "(edit_product e pid nm descr pr st img None s = (RedirectResponse (Path ''/login'') NoCookie, s)
    \<and> delete_product pid None s = (RedirectResponse (Path ''/login'') NoCookie, s))
   \<and> ((\<forall>p\<in>set (products s). \<not> (p_id p = pid \<and> owner_id p = u_id cu)) \<longrightarrow>
        edit_product e pid nm descr pr st img (Some cu) s
          = (HTTPException 404 ''Producto no encontrado o no tienes permiso para editarlo'', s)
        \<and> delete_product pid (Some cu) s
          = (HTTPException 404 ''Producto no encontrado o no tienes permiso para eliminarlo'', s))"
proof (intro conjI impI)
  show "edit_product e pid nm descr pr st img None s = (RedirectResponse (Path ''/login'') NoCookie, s)"
    by (simp add: edit_product_def)
  show "delete_product pid None s = (RedirectResponse (Path ''/login'') NoCookie, s)"
    by (simp add: delete_product_def)
next
  assume "\<forall>p\<in>set (products s). \<not> (p_id p = pid \<and> owner_id p = u_id cu)"
  then have none: "first (filter (\<lambda>p. p_id p = pid \<and> owner_id p = u_id cu) (products s)) = None"
    by (simp add: first_filter_None)
  from none show "edit_product e pid nm descr pr st img (Some cu) s
          = (HTTPException 404 ''Producto no encontrado o no tienes permiso para editarlo'', s)"
    by (simp add: edit_product_def)
  from none show "delete_product pid (Some cu) s
          = (HTTPException 404 ''Producto no encontrado o no tienes permiso para eliminarlo'', s)"
    by (simp add: delete_product_def)
qed

theorem non_owner_edit_delete_rejected_witness:
  "edit_product example_env 1 ''x'' ''y'' (Finite 1) 1 None (Some bob) example_state
     = (HTTPException 404 ''Producto no encontrado o no tienes permiso para editarlo'', example_state)
   \<and> delete_product 1 (Some bob) example_state
     = (HTTPException 404 ''Producto no encontrado o no tienes permiso para eliminarlo'', example_state)
   \<and> delete_product 9 (Some alice) example_state
     = (HTTPException 404 ''Producto no encontrado o no tienes permiso para eliminarlo'', example_state)"
proof -
  have other: "\<forall>p\<in>set (products example_state). \<not> (p_id p = 1 \<and> owner_id p = u_id bob)"
    by (simp add: ex_defs)
  have absent: "\<forall>p\<in>set (products example_state). \<not> (p_id p = 9 \<and> owner_id p = u_id alice)"
    by (simp add: ex_defs)
  from non_owner_edit_delete_rejected [of example_env 1 "''x''" "''y''" "Finite 1" 1 None example_state bob]
       non_owner_edit_delete_rejected [of example_env 9 "''x''" "''y''" "Finite 1" 1 None example_state alice]
       other absent
  show ?thesis by blast
qed

section \<open>Creating a product\<close>

lemma add_product_open_raises:
  assumes "filename img \<noteq> []"
    and "open_wb e (uuid_str (uuid4 e) @ ''_'' @ filename img) = Some exn"
  shows "add_product e nm descr pr st img (Some cu) s = (exn, s)"
  using assms by (simp add: add_product_def Let_def)

lemma add_product_commit_raises:
  assumes "filename img \<noteq> []"
    and "open_wb e (uuid_str (uuid4 e) @ ''_'' @ filename img) = None"
    and "\<not> column_values_ok e pr st"
  shows "add_product e nm descr pr st img (Some cu) s =
           (DatabaseError,
            s\<lparr>files := (files s)(image_path (uuid_str (uuid4 e) @ ''_'' @ filename img) \<mapsto> content img)\<rparr>)"
  using assms by (simp add: add_product_def Let_def)

text \<open>
  Claim C2 says that \<^verbatim>\<open>add_product\<close> rejects a negative price, a negative stock and
  empty image bytes. The handler compares neither number with anything and never looks at
  the bytes: an authenticated request with price -1, stock -5 and an empty file named
  \<^verbatim>\<open>a.png\<close> is answered with the redirect to the listing and inserts the product.
\<close>

theorem add_product_no_range_check_counterexample:
  "fst (handle example_env (Some ''ta'')
          (AddProduct ''n'' ''d'' (Finite (- 1)) (- 5) \<lparr>filename = ''a.png'', content = []\<rparr>)
          example_state)
     = RedirectResponse (Path ''/'') NoCookie
   \<and> products (snd (handle example_env (Some ''ta'')
                      (AddProduct ''n'' ''d'' (Finite (- 1)) (- 5) \<lparr>filename = ''a.png'', content = []\<rparr>)
                      example_state))
     = [lamp, \<lparr>p_id = 2, name = ''n'', description = ''d'', price = Finite (- 1), stock = - 5,
               image = uuid_str 7 @ ''_a.png'', owner_id = 1\<rparr>]"
proof -
  have cu: "get_current_user example_state (Some ''ta'') = Some alice"
    by (simp add: get_current_user_def ex_defs)
  have draw: "uuid4 example_env = 7"
    by (simp add: example_env_def)
  have op: "open_wb example_env (uuid_str 7 @ ''_'' @ ''a.png'') = None"
    by (rule image_name_opens) (simp_all add: example_env_def)
  have cv: "column_values_ok example_env (Finite (- 1)) (- 5)"
    by (simp add: column_values_ok_def example_env_def)
  have tab: "products example_state = [lamp]" "u_id alice = 1"
    "next_id (map p_id (products example_state)) = 2"
    by (simp_all add: next_id_def ex_defs)
  from op show ?thesis
    by (simp add: add_product_def cu draw cv tab Let_def next_id_def lamp_def)
qed

text \<open>
  Claim C2 as amended. For every authenticated create-product request the only validation
  is that the uploaded image has a file name: when the name is empty the request is
  answered with the form and its message and the state is unchanged (no product row is
  inserted, no file is written). Price, stock and image bytes are not validated: with a
  file name the answer is never that message, and when the image file is created and the
  engine stores the price and the stock, one product row with the submitted fields and
  the requester as owner is appended and the bytes are stored under the product's image
  reference, whatever the sign of the price and of the stock and whatever the bytes.
\<close>

theorem add_product_checks_filename_only:
  "(filename img = [] \<longrightarrow>
      add_product e nm descr pr st img (Some cu) s =
        (TemplateResponse ''add_product.html'' (Some ''No se ha cargado ninguna imagen''), s))
   \<and> (filename img \<noteq> [] \<longrightarrow>
        fst (add_product e nm descr pr st img (Some cu) s)
          \<noteq> TemplateResponse ''add_product.html'' (Some ''No se ha cargado ninguna imagen''))
   \<and> (filename img \<noteq> []
        \<and> open_wb e (uuid_str (uuid4 e) @ ''_'' @ filename img) = None
        \<and> column_values_ok e pr st \<longrightarrow>
        (let s' = snd (add_product e nm descr pr st img (Some cu) s);
             p = \<lparr>p_id = next_id (map p_id (products s)), name = nm, description = descr,
                  price = pr, stock = st, image = uuid_str (uuid4 e) @ ''_'' @ filename img,
                  owner_id = u_id cu\<rparr>
         in fst (add_product e nm descr pr st img (Some cu) s) = RedirectResponse (Path ''/'') NoCookie
            \<and> products s' = products s @ [p]
            \<and> files s' (image_path (image p)) = Some (content img)
            \<and> users s' = users s \<and> ratings s' = ratings s \<and> sessions s' = sessions s))"
proof (intro conjI impI)
  assume "filename img = []"
  then show "add_product e nm descr pr st img (Some cu) s =
        (TemplateResponse ''add_product.html'' (Some ''No se ha cargado ninguna imagen''), s)"
    by (simp add: add_product_def)
next
  assume named: "filename img \<noteq> []"
  show "fst (add_product e nm descr pr st img (Some cu) s)
          \<noteq> TemplateResponse ''add_product.html'' (Some ''No se ha cargado ninguna imagen'')"
  proof (cases "open_wb e (uuid_str (uuid4 e) @ ''_'' @ filename img)")
    case None
    with named show ?thesis
      by (simp add: add_product_def Let_def)
  next
    case (Some exn)
    from open_wb_raises[OF Some] add_product_open_raises[OF named Some]
    show ?thesis by auto
  qed
next
  assume "filename img \<noteq> []
        \<and> open_wb e (uuid_str (uuid4 e) @ ''_'' @ filename img) = None
        \<and> column_values_ok e pr st"
  then show "let s' = snd (add_product e nm descr pr st img (Some cu) s);
             p = \<lparr>p_id = next_id (map p_id (products s)), name = nm, description = descr,
                  price = pr, stock = st, image = uuid_str (uuid4 e) @ ''_'' @ filename img,
                  owner_id = u_id cu\<rparr>
         in fst (add_product e nm descr pr st img (Some cu) s) = RedirectResponse (Path ''/'') NoCookie
            \<and> products s' = products s @ [p]
            \<and> files s' (image_path (image p)) = Some (content img)
            \<and> users s' = users s \<and> ratings s' = ratings s \<and> sessions s' = sessions s"
    by (simp add: add_product_def Let_def)
qed

theorem add_product_checks_filename_only_witness:
  "add_product example_env ''n'' ''d'' (Finite 3) 2 \<lparr>filename = [], content = [1, 2]\<rparr> (Some alice)
      example_state =
     (TemplateResponse ''add_product.html'' (Some ''No se ha cargado ninguna imagen''), example_state)
   \<and> products (snd (add_product example_env ''n'' ''d'' (Finite (- 1)) (- 5)
                      \<lparr>filename = ''a.png'', content = []\<rparr> (Some alice) example_state))
     = [lamp, \<lparr>p_id = 2, name = ''n'', description = ''d'', price = Finite (- 1), stock = - 5,
               image = uuid_str 7 @ ''_a.png'', owner_id = 1\<rparr>]"
proof -
  have empty: "filename \<lparr>filename = [], content = [1, 2]\<rparr> = []"
    by simp
  have named: "filename \<lparr>filename = ''a.png'', content = []\<rparr> \<noteq> []"
    by simp
  have draw: "uuid4 example_env = 7"
    by (simp add: example_env_def)
  have op: "open_wb example_env (uuid_str 7 @ ''_'' @ ''a.png'') = None"
    by (rule image_name_opens) (simp_all add: example_env_def)
  have cv: "column_values_ok example_env (Finite (- 1)) (- 5)"
    by (simp add: column_values_ok_def example_env_def)
  have nid: "next_id (map p_id (products example_state)) = 2"
    by (simp add: next_id_def ex_defs)
  have tab: "products example_state = [lamp]" "u_id alice = 1"
    by (simp_all add: ex_defs)
  from add_product_checks_filename_only
         [of "\<lparr>filename = [], content = [1, 2]\<rparr>" example_env "''n''" "''d''" "Finite 3" 2 alice
             example_state]
       add_product_checks_filename_only
         [of "\<lparr>filename = ''a.png'', content = []\<rparr>" example_env "''n''" "''d''" "Finite (- 1)" "- 5"
             alice example_state]
       empty named op cv nid tab draw
  show ?thesis by (simp add: Let_def)
qed

section \<open>The ranked listing\<close>

lemma list_sort_reverse_descending:
  "sorted_wrt (\<lambda>a b. key b \<le> key a) (list_sort key True xs)"
proof -
  have "sorted (map key (sort_key key (rev xs)))"
    by simp
  then have "sorted_wrt (\<lambda>a b. key a \<le> key b) (sort_key key (rev xs))"
    by (simp add: sorted_map)
  then show ?thesis
    by (simp add: list_sort_def sorted_wrt_rev)
qed

lemma list_sort_reverse_stable:
  "filter (\<lambda>x. key x = k) (list_sort key True xs) = filter (\<lambda>x. key x = k) xs"
proof -
  have "filter (\<lambda>x. key x = k) (rev (sort_key key (rev xs)))
          = rev (filter (\<lambda>x. key x = k) (sort_key key (rev xs)))"
    by (simp add: rev_filter)
  also have "\<dots> = rev (filter (\<lambda>x. key x = k) (rev xs))"
    by (simp only: sort_key_stable)
  also have "\<dots> = filter (\<lambda>x. key x = k) xs"
    by (simp add: rev_filter)
  finally show ?thesis
    by (simp add: list_sort_def)
qed

lemma list_sort_same_elements:
  "set (list_sort key r xs) = set xs \<and> length (list_sort key r xs) = length xs"
  by (simp add: list_sort_def)

text \<open>
  Claim C6. The listing that \<^verbatim>\<open>read_products\<close> renders holds the products of the table,
  each with its rating count, in descending order of the count; the products with any one
  count appear in the order the table has them (the sort is stable); and the handler
  leaves the state as it is, so the same request again renders the same listing.
\<close>

theorem read_products_ranked_stable:
  "sorted_wrt (\<lambda>a b. snd b \<le> snd a) (products_with_ratings s)
   \<and> set (products_with_ratings s) = set (map (\<lambda>p. (p, rating_count s (p_id p))) (products s))
   \<and> length (products_with_ratings s) = length (products s)
   \<and> (\<forall>k. filter (\<lambda>x. snd x = k) (products_with_ratings s)
            = filter (\<lambda>x. snd x = k) (map (\<lambda>p. (p, rating_count s (p_id p))) (products s)))
   \<and> read_products cu s = (IndexPage (products_with_ratings s) cu, s)
   \<and> read_products cu (snd (read_products cu s)) = read_products cu s"
proof (intro conjI allI)
  show "sorted_wrt (\<lambda>a b. snd b \<le> snd a) (products_with_ratings s)"
    unfolding products_with_ratings_def by (rule list_sort_reverse_descending)
  show "set (products_with_ratings s) = set (map (\<lambda>p. (p, rating_count s (p_id p))) (products s))"
    unfolding products_with_ratings_def by (simp add: list_sort_same_elements)
  show "length (products_with_ratings s) = length (products s)"
    unfolding products_with_ratings_def by (simp add: list_sort_same_elements)
  show "filter (\<lambda>x. snd x = k) (products_with_ratings s)
            = filter (\<lambda>x. snd x = k) (map (\<lambda>p. (p, rating_count s (p_id p))) (products s))" for k
    unfolding products_with_ratings_def by (rule list_sort_reverse_stable)
  show "read_products cu s = (IndexPage (products_with_ratings s) cu, s)"
    by (simp add: read_products_def)
  show "read_products cu (snd (read_products cu s)) = read_products cu s"
    by (simp add: read_products_def)
qed

section \<open>One rating for each user and product\<close>

lemma rate_product_keeps_unique:
  assumes "rating_unique s"
  shows "rating_unique (snd (rate_product pid current_user s))"
proof (cases current_user)
  case None
  with assms show ?thesis by (simp add: rate_product_def)
next
  case (Some cu)
  show ?thesis
  proof (cases "first (filter (\<lambda>p. p_id p = pid) (products s))")
    case None
    with Some assms show ?thesis by (simp add: rate_product_def)
  next
    case found: (Some p)
    show ?thesis
    proof (cases "first (filter (\<lambda>r. user_id r = u_id cu \<and> product_id r = pid) (ratings s))")
      case None
      then have "\<forall>r\<in>set (ratings s). \<not> (user_id r = u_id cu \<and> product_id r = pid)"
        by (simp add: first_filter_None)
      then have "(u_id cu, pid) \<notin> set (map (\<lambda>r. (user_id r, product_id r)) (ratings s))"
        by auto
      with assms None found Some show ?thesis
        by (simp add: rate_product_def rating_unique_def)
    next
      case (Some r)
      with found \<open>current_user = Some cu\<close> assms show ?thesis
        by (simp add: rate_product_def)
    qed
  qed
qed

lemma session_handlers_keep_ratings:
  "ratings (snd (register_user e uname mail password wa s)) = ratings s"
  "ratings (snd (login_user e uname password s)) = ratings s"
  "ratings (snd (logout tok s)) = ratings s"
  by (simp_all add: register_user_def login_user_def logout_def Let_def split: option.splits)

lemma page_handlers_keep_ratings:
  "ratings (snd (read_products cu s)) = ratings s"
  "ratings (snd (add_product_form cu s)) = ratings s"
  "ratings (snd (product_detail pid cu s)) = ratings s"
  "ratings (snd (edit_product_form pid cu s)) = ratings s"
  "ratings (snd (user_detail uid cu s)) = ratings s"
  by (simp_all add: read_products_def add_product_form_def product_detail_def
        edit_product_form_def user_detail_def Let_def split: option.splits)

lemma add_product_keeps_ratings:
  "ratings (snd (add_product e nm descr pr st img cu s)) = ratings s"
  by (simp add: add_product_def Let_def split: option.splits)

lemma edit_product_keeps_ratings:
  "ratings (snd (edit_product e pid nm descr pr st img cu s)) = ratings s"
  by (simp add: edit_product_def Let_def split: option.splits)

lemma delete_product_keeps_ratings:
  "ratings (snd (delete_product pid cu s)) = ratings s"
  by (simp add: delete_product_def db_delete_product_def Let_def split: option.splits)

lemmas other_handlers_keep_ratings =
  session_handlers_keep_ratings page_handlers_keep_ratings add_product_keeps_ratings
  edit_product_keeps_ratings delete_product_keeps_ratings

lemma handle_keeps_unique:
  "rating_unique s \<Longrightarrow> rating_unique (snd (handle e tok req s))"
proof (cases req)
  case (RateProduct pid)
  assume "rating_unique s"
  with RateProduct show ?thesis by (simp add: rate_product_keeps_unique)
qed (simp_all add: rating_unique_def other_handlers_keep_ratings)

lemma reachable_unique: "reachable s \<Longrightarrow> rating_unique s"
proof (induction rule: reachable.induct)
  case reachable_init
  show ?case by (simp add: rating_unique_def init_state_def)
next
  case (reachable_step s e tok req)
  then show ?case by (simp add: handle_keeps_unique)
qed

text \<open>
  Claim C5. In every state reachable from the empty one by requests, no two rating rows
  have the same user and the same product; and every request, handled in a state where
  this holds, leaves a state where it holds.
\<close>

theorem rating_pair_unique_invariant:
  "(reachable s \<longrightarrow> rating_unique s)
   \<and> (rating_unique s \<longrightarrow> rating_unique (snd (handle e tok req s)))"
  by (simp add: reachable_unique handle_keeps_unique)

theorem rating_pair_unique_invariant_witness:
  "rating_unique rated_state
   \<and> rating_unique (snd (handle example_env (Some ''ta'') (RateProduct 1) rated_state))
   \<and> reachable (snd (handle example_env None (PostRegister ''alice'' ''alice@example.org'' ''a'' ''3001'')
                       init_state))
   \<and> rating_unique (snd (handle example_env None (PostRegister ''alice'' ''alice@example.org'' ''a'' ''3001'')
                           init_state))"
proof -
  have u: "rating_unique rated_state"
    by (simp add: rating_unique_def ex_defs)
  have r: "reachable (snd (handle example_env None (PostRegister ''alice'' ''alice@example.org'' ''a'' ''3001'')
                       init_state))"
    by (intro reachable_step reachable_init)
  from rating_pair_unique_invariant
         [of rated_state example_env "Some ''ta''" "RateProduct 1"]
       rating_pair_unique_invariant
         [of "snd (handle example_env None (PostRegister ''alice'' ''alice@example.org'' ''a'' ''3001'')
                       init_state)"]
       u r
  show ?thesis by blast
qed

section \<open>Deleting a product that has ratings\<close>

lemma delete_product_with_ratings_raises:
  assumes "first (filter (\<lambda>p. p_id p = pid \<and> owner_id p = u_id cu) (products s)) = Some p"
    and "\<exists>r\<in>set (ratings s). product_id r = pid"
  shows "delete_product pid (Some cu) s
           = (IntegrityError, s\<lparr>files := (files s)(image_path (image p) := None)\<rparr>)"
proof -
  from first_filter_Some[OF assms(1)] have "p_id p = pid" by simp
  with assms(2) have "filter (\<lambda>r. product_id r = p_id p) (ratings s) \<noteq> []"
    by (simp add: filter_empty_conv)
  with assms(1) show ?thesis
    by (simp add: delete_product_def db_delete_product_def)
qed

lemma delete_product_without_ratings:
  assumes "first (filter (\<lambda>p. p_id p = pid \<and> owner_id p = u_id cu) (products s)) = Some p"
    and "\<forall>r\<in>set (ratings s). product_id r \<noteq> pid"
  shows "delete_product pid (Some cu) s
           = (RedirectResponse (Path ''/'') NoCookie,
              s\<lparr>files := (files s)(image_path (image p) := None),
                products := filter (\<lambda>q. p_id q \<noteq> pid) (products s)\<rparr>)"
proof -
  from first_filter_Some[OF assms(1)] have pid: "p_id p = pid" by simp
  with assms(2) have "filter (\<lambda>r. product_id r = p_id p) (ratings s) = []"
    by (simp add: filter_empty_conv)
  with assms(1) pid show ?thesis
    by (simp add: delete_product_def db_delete_product_def)
qed

text \<open>
  Claim C1 says that the owner's deletion of a product with ratings succeeds and removes
  the ratings with it. \<^verbatim>\<open>models.py\<close> declares no cascade on \<^verbatim>\<open>Product.ratings\<close> and
  declares \<^verbatim>\<open>Rating.product_id\<close> not nullable, so the commit in \<^verbatim>\<open>delete_product\<close> raises.
  In the end-to-end scenario (reachable by four requests, the product has one rating and
  the first user's token resolves to the owner) the owner's delete request ends in
  \<^verbatim>\<open>IntegrityError\<close>; the product row and the rating row are still there, and the product
  page is still found.
\<close>

theorem delete_rated_product_raises:
  "reachable scenario_state
   \<and> rating_count scenario_state 1 = 1
   \<and> get_current_user scenario_state (Some (uuid_str 7)) = Some alice
   \<and> fst (handle example_env (Some (uuid_str 7)) (DeleteProduct 1) scenario_state) = IntegrityError
   \<and> products (snd (handle example_env (Some (uuid_str 7)) (DeleteProduct 1) scenario_state))
        = products scenario_state
   \<and> ratings (snd (handle example_env (Some (uuid_str 7)) (DeleteProduct 1) scenario_state))
        = ratings scenario_state
   \<and> product_detail 1 None (snd (handle example_env (Some (uuid_str 7)) (DeleteProduct 1) scenario_state))
        \<noteq> (HTTPException 404 ''Producto no encontrado'',
            snd (handle example_env (Some (uuid_str 7)) (DeleteProduct 1) scenario_state))"
proof -
  have r: "reachable scenario_state"
    unfolding scenario_state_def Let_def by (intro reachable_step reachable_init)
  have cu: "get_current_user scenario_state (Some (uuid_str 7)) = Some alice"
    by (simp add: get_current_user_def scenario_tables uuid_str_nonempty ex_defs)
  have cnt: "rating_count scenario_state 1 = 1"
    by (simp add: rating_count_def scenario_tables)
  have del: "delete_product 1 (Some alice) scenario_state
      = (IntegrityError, scenario_state\<lparr>files := (files scenario_state)(image_path (uuid_str 9 @ ''_lamp.png'') := None)\<rparr>)"
    by (simp add: delete_product_def db_delete_product_def scenario_tables ex_defs)
  have h: "handle example_env (Some (uuid_str 7)) (DeleteProduct 1) scenario_state
      = (IntegrityError, scenario_state\<lparr>files := (files scenario_state)(image_path (uuid_str 9 @ ''_lamp.png'') := None)\<rparr>)"
    using cu del by simp
  have pd: "product_detail 1 None
              (scenario_state\<lparr>files := (files scenario_state)(image_path (uuid_str 9 @ ''_lamp.png'') := None)\<rparr>)
            \<noteq> (HTTPException 404 ''Producto no encontrado'',
                scenario_state\<lparr>files := (files scenario_state)(image_path (uuid_str 9 @ ''_lamp.png'') := None)\<rparr>)"
    by (simp add: product_detail_def scenario_tables ex_defs)
  from r cu cnt pd show ?thesis
    unfolding h by simp
qed

section \<open>Two concurrent ratings\<close>

lemma rate_product_split:
  "rate_product pid current_user s =
     (case rate_precheck pid current_user s of
        Inl r \<Rightarrow> (r, s)
      | Inr cu \<Rightarrow> rate_commit pid cu s)"
  by (simp add: rate_product_def rate_precheck_def rate_commit_def first_eq_None Let_def
      split: option.splits)

lemma rate_commit_duplicate_raises:
  assumes "\<exists>r\<in>set (ratings s). user_id r = u_id cu \<and> product_id r = pid"
  shows "rate_commit pid cu s = (IntegrityError, s)"
  using assms by (simp add: rate_commit_def filter_empty_conv)

text \<open>
  Claim C10 says that, when two concurrent rate calls for the same user and product both
  pass the pre-check, the second caller receives AlreadyRated, derived from the
  violation of the uniqueness constraint. \<^verbatim>\<open>rate_product\<close> does not catch the exception
  of the commit. In the state where the first user has registered and listed a product
  (reachable by two requests; the user's token resolves to the user), two requests of
  that user to rate the product both pass the pre-check; the commit of the first inserts
  the rating row; the commit of the second, on the state the first has left, ends in
  \<^verbatim>\<open>IntegrityError\<close>, which is not the 400 answer of the pre-check, and one rating row is
  stored.
\<close>

theorem concurrent_rate_second_commit_raises:
  "reachable listed_state
   \<and> get_current_user listed_state (Some (uuid_str 7)) = Some alice
   \<and> rate_precheck 1 (Some alice) listed_state = Inr alice
   \<and> fst (rate_commit 1 alice listed_state) = RedirectResponse (ProductPath 1) NoCookie
   \<and> ratings (snd (rate_commit 1 alice listed_state)) = [\<lparr>r_id = 1, user_id = 1, product_id = 1\<rparr>]
   \<and> rate_commit 1 alice (snd (rate_commit 1 alice listed_state))
       = (IntegrityError, snd (rate_commit 1 alice listed_state))
   \<and> fst (rate_commit 1 alice (snd (rate_commit 1 alice listed_state)))
       \<noteq> HTTPException 400 ''Ya has puntuado este producto''"
proof -
  have cu: "get_current_user listed_state (Some (uuid_str 7)) = Some alice"
    by (simp add: get_current_user_def listed_tables uuid_str_nonempty alice_def)
  have pre: "rate_precheck 1 (Some alice) listed_state = Inr alice"
    by (simp add: rate_precheck_def listed_tables lamp_def)
  have one: "rate_commit 1 alice listed_state
      = (RedirectResponse (ProductPath 1) NoCookie,
         listed_state\<lparr>ratings := [\<lparr>r_id = 1, user_id = 1, product_id = 1\<rparr>]\<rparr>)"
    by (simp add: rate_commit_def listed_tables next_id_def alice_def)
  have two: "rate_commit 1 alice (listed_state\<lparr>ratings := [\<lparr>r_id = 1, user_id = 1, product_id = 1\<rparr>]\<rparr>)
      = (IntegrityError, listed_state\<lparr>ratings := [\<lparr>r_id = 1, user_id = 1, product_id = 1\<rparr>]\<rparr>)"
    by (simp add: rate_commit_def alice_def)
  from listed_reachable cu pre two show ?thesis
    unfolding one by simp
qed

end
